theory Spec2Isabelle
  imports Complex_Main "HOL-Library.Multiset" "HOL-Library.Char_ord" "HOL-Library.List_Lexorder"
begin

section \<open>Numbers, errors and dates\<close>

text \<open>
  The two scripts (\<^verbatim>\<open>supply_chain_analysis.py\<close>, \<^verbatim>\<open>supply_chain_visualizations.py\<close>)
  are straight-line pandas programs over four tables.  A table is a list of rows (the row's
  position is its pandas index), a row is a record of the columns the modelled statements read.

  Numeric columns hold finite numbers and are modelled as exact rationals; the non-finite
  values that NumPy division produces for a zero denominator are the constructors
  \<open>PInf\<close>, \<open>NInf\<close> and \<open>NaN\<close> of \<open>fval\<close>.  Python's own \<^verbatim>\<open>/\<close> on two \<^verbatim>\<open>int\<close>s
  raises instead, which is the error value \<open>ZeroDivisionError\<close>.
\<close>

datatype py_error = ZeroDivisionError | IndexError

datatype fval = Fin rat | PInf | NInf | NaN

text \<open>
  NumPy's \<^verbatim>\<open>a / b\<close> on finite operands, and subtraction and multiplication on values
  that may be infinite or NaN (a sum of finite values is never a negative zero here).
\<close>

definition fdiv :: "rat \<Rightarrow> rat \<Rightarrow> fval" where
  "fdiv a b =
     (if b \<noteq> 0 then Fin (a / b)
      else if 0 < a then PInf
      else if a < 0 then NInf
      else NaN)"

fun fsub :: "fval \<Rightarrow> fval \<Rightarrow> fval" where
  "fsub (Fin a) (Fin b) = Fin (a - b)"
| "fsub NaN y = NaN"
| "fsub (Fin a) NaN = NaN"
| "fsub PInf NaN = NaN"
| "fsub NInf NaN = NaN"
| "fsub (Fin a) PInf = NInf"
| "fsub (Fin a) NInf = PInf"
| "fsub PInf (Fin b) = PInf"
| "fsub NInf (Fin b) = NInf"
| "fsub PInf PInf = NaN"
| "fsub PInf NInf = PInf"
| "fsub NInf PInf = NInf"
| "fsub NInf NInf = NaN"

fun fsgn :: "fval \<Rightarrow> int" where
  "fsgn (Fin a) = (if 0 < a then 1 else if a < 0 then -1 else 0)"
| "fsgn PInf = 1"
| "fsgn NInf = -1"
| "fsgn NaN = 0"

definition signed_inf :: "int \<Rightarrow> fval" where
  "signed_inf s = (if 0 < s then PInf else if s < 0 then NInf else NaN)"

fun fmul :: "fval \<Rightarrow> fval \<Rightarrow> fval" where
  "fmul (Fin a) (Fin b) = Fin (a * b)"
| "fmul NaN y = NaN"
| "fmul (Fin a) NaN = NaN"
| "fmul PInf NaN = NaN"
| "fmul NInf NaN = NaN"
| "fmul (Fin a) PInf = signed_inf (fsgn (Fin a))"
| "fmul (Fin a) NInf = signed_inf (- fsgn (Fin a))"
| "fmul PInf (Fin b) = signed_inf (fsgn (Fin b))"
| "fmul NInf (Fin b) = signed_inf (- fsgn (Fin b))"
| "fmul PInf PInf = PInf"
| "fmul PInf NInf = NInf"
| "fmul NInf PInf = NInf"
| "fmul NInf NInf = PInf"

text \<open>
  \<^verbatim>\<open>.round(2)\<close> is NumPy's \<^verbatim>\<open>around\<close>: scale by 100, round to the nearest integer
  with halves going to the even neighbour, scale back.  Non-finite values are kept.
\<close>

definition rint :: "rat \<Rightarrow> int" where
  "rint y =
     (let f = \<lfloor>y\<rfloor>; d = y - of_int f
      in if d < 1 / 2 then f
         else if 1 / 2 < d then f + 1
         else if even f then f else f + 1)"

definition round2 :: "rat \<Rightarrow> rat" where
  "round2 x = of_int (rint (x * 100)) / 100"

fun fround2 :: "fval \<Rightarrow> fval" where
  "fround2 (Fin x) = Fin (round2 x)"
| "fround2 v = v"

text \<open>\<^verbatim>\<open>Series.sum()\<close> and \<^verbatim>\<open>Series.mean()\<close>; the mean of no values is NaN.\<close>

definition mean :: "rat list \<Rightarrow> fval" where
  "mean xs = (if xs = [] then NaN else Fin (sum_list xs / of_nat (length xs)))"

text \<open>
  A parsed date.  \<open>toordinal\<close> is the proleptic Gregorian day number, so that the
  \<^verbatim>\<open>.dt.days\<close> of a difference of two dates is the difference of their ordinals;
  \<open>to_period_M\<close> is the ordinal pandas gives a monthly period (months since January 1970).
\<close>

record date =
  year :: int
  month :: int
  day :: int

definition is_leap :: "int \<Rightarrow> bool" where
  "is_leap y = (y mod 4 = 0 \<and> (y mod 100 \<noteq> 0 \<or> y mod 400 = 0))"

definition days_before_year :: "int \<Rightarrow> int" where
  "days_before_year y = (let y1 = y - 1 in y1 * 365 + y1 div 4 - y1 div 100 + y1 div 400)"

definition days_before_month :: "int \<Rightarrow> int \<Rightarrow> int" where
  "days_before_month y m =
     (case drop (nat (m - 1)) [0, 31, 59, 90, 120, 151, 181, 212, 243, 273, 304, 334 :: int] of
        [] \<Rightarrow> 0
      | c # _ \<Rightarrow> c + (if 2 < m \<and> is_leap y then 1 else 0))"

definition toordinal :: "date \<Rightarrow> int" where
  "toordinal d = days_before_year (year d) + days_before_month (year d) (month d) + day d"

definition days_between :: "date \<Rightarrow> date \<Rightarrow> int" where
  "days_between later earlier = toordinal later - toordinal earlier"

definition to_period_M :: "date \<Rightarrow> int" where
  "to_period_M d = (year d - 1970) * 12 + (month d - 1)"

section \<open>The tables\<close>

text \<open>
  One record per CSV file, with the columns the modelled statements read under their
  column names.  The shipping file's \<^verbatim>\<open>Order_ID\<close> is the field \<open>Ship_Order_ID\<close>, to
  keep it apart from the order file's.  Cells are taken to be present: no missing values
  and no unparsable dates.
\<close>

record order =
  Order_ID :: string
  Order_Date :: date
  Expected_Delivery :: date
  Actual_Delivery :: date
  On_Time_Delivery :: string
  Warehouse :: string
  Total_Value :: rat

record inventory_item =
  Category :: string
  Current_Stock :: rat
  Avg_Monthly_Demand :: rat
  Days_of_Inventory :: rat

record supplier =
  Supplier :: string
  On_Time_Delivery_Rate :: rat
  Quality_Score :: rat
  Defect_Rate_Percent :: rat

record shipment =
  Shipping_ID :: string
  Ship_Order_ID :: string
  Carrier :: string
  Shipping_Cost :: rat
  Distance_KM :: rat

text \<open>
  \<^verbatim>\<open>df.groupby(key)\<close>: one group per key value that occurs, the groups in ascending key
  order, the rows of a group in their order in the table.
\<close>

definition groupby :: "('r \<Rightarrow> 'k::linorder) \<Rightarrow> 'r list \<Rightarrow> ('k \<times> 'r list) list" where
  "groupby key df =
     map (\<lambda>k. (k, filter (\<lambda>r. key r = k) df)) (sort (remdups (map key df)))"

section \<open>Order fulfillment (analysis script, section 2)\<close>

definition is_on_time :: "order \<Rightarrow> bool" where
  "is_on_time r = (On_Time_Delivery r = ''Yes'')"

text \<open>
  \<^verbatim>\<open>total_orders = len(orders_df)\<close>,
  \<^verbatim>\<open>on_time_orders = len(orders_df[orders_df['On_Time_Delivery'] == 'Yes'])\<close>,
  \<^verbatim>\<open>on_time_rate = (on_time_orders / total_orders) * 100\<close>: both operands are Python
  integers, so the division raises on an empty table.
\<close>

definition total_orders :: "order list \<Rightarrow> nat" where
  "total_orders orders_df = length orders_df"

definition on_time_orders :: "order list \<Rightarrow> nat" where
  "on_time_orders orders_df = length (filter is_on_time orders_df)"

definition on_time_rate :: "order list \<Rightarrow> py_error + rat" where
  "on_time_rate orders_df =
     (if total_orders orders_df = 0 then Inl ZeroDivisionError
      else Inr (of_nat (on_time_orders orders_df) / of_nat (total_orders orders_df) * 100))"

text \<open>
  \<^verbatim>\<open>orders_df['Delivery_Time_Days'] = (Actual_Delivery - Order_Date).dt.days\<close> and the two
  means; \<^verbatim>\<open>late_orders\<close> are the rows flagged \<open>No\<close>.
\<close>

definition Delivery_Time_Days :: "order \<Rightarrow> int" where
  "Delivery_Time_Days r = days_between (Actual_Delivery r) (Order_Date r)"

definition avg_delivery_time :: "order list \<Rightarrow> fval" where
  "avg_delivery_time orders_df = mean (map (\<lambda>r. of_int (Delivery_Time_Days r)) orders_df)"

definition late_orders :: "order list \<Rightarrow> order list" where
  "late_orders orders_df = filter (\<lambda>r. On_Time_Delivery r = ''No'') orders_df"

definition avg_delay :: "order list \<Rightarrow> fval" where
  "avg_delay orders_df =
     mean (map (\<lambda>r. of_int (days_between (Actual_Delivery r) (Expected_Delivery r)))
             (late_orders orders_df))"

text \<open>
  The per-warehouse table: \<^verbatim>\<open>groupby('Warehouse').agg({...}).round(2)\<close> with the columns
  renamed to \<^verbatim>\<open>Total_Orders\<close>, \<^verbatim>\<open>On_Time_Rate_%\<close>, \<^verbatim>\<open>Total_Revenue\<close>,
  \<^verbatim>\<open>Avg_Delivery_Days\<close>.  A group always has at least one row, so the two quotients
  have a non-zero denominator.
\<close>

record warehouse_row =
  Warehouse_Name :: string
  Total_Orders :: nat
  On_Time_Rate :: rat
  Total_Revenue :: rat
  Avg_Delivery_Days :: rat

definition warehouse_agg :: "string \<times> order list \<Rightarrow> warehouse_row" where
  "warehouse_agg kg =
     (case kg of (k, g) \<Rightarrow>
        \<lparr> Warehouse_Name = k,
          Total_Orders = length g,
          On_Time_Rate =
            round2 (of_nat (length (filter is_on_time g)) / of_nat (length g) * 100),
          Total_Revenue = round2 (sum_list (map Total_Value g)),
          Avg_Delivery_Days =
            round2 (sum_list (map (\<lambda>r. of_int (Delivery_Time_Days r)) g) / of_nat (length g)) \<rparr>)"

definition warehouse_rollup :: "order list \<Rightarrow> warehouse_row list" where
  "warehouse_rollup orders_df = map warehouse_agg (groupby Warehouse orders_df)"

text \<open>
  \<^verbatim>\<open>sort_values(col, ascending=False)\<close> is called without \<^verbatim>\<open>kind\<close>, so pandas sorts
  with its default \<^verbatim>\<open>'quicksort'\<close>, which the library documents as not stable: the
  result is the same rows in descending order of the column, and nothing more is promised
  about rows with equal values.  The sort is therefore a parameter of the model, and
  \<open>sorts_descending\<close> is what the library promises of it.
\<close>

type_synonym 'r sort_values = "('r \<Rightarrow> rat) \<Rightarrow> 'r list \<Rightarrow> 'r list"


definition warehouse_performance :: "warehouse_row sort_values \<Rightarrow> order list \<Rightarrow> warehouse_row list" where
  "warehouse_performance sort_values orders_df =
     sort_values On_Time_Rate (warehouse_rollup orders_df)"

text \<open>
  Two sorts that meet the library's promise: one keeps rows with equal values in their
  order of arrival (what \<^verbatim>\<open>kind='stable'\<close> would do), the other sorts ascending and
  reverses, which turns their order around.
\<close>

definition stable_descending :: "'r sort_values" where
  "stable_descending col df = sort_key (\<lambda>r. - col r) df"


text \<open>The whole of section 2: it stops at the first statement that raises.\<close>

record fulfillment_metrics =
  fm_on_time_rate :: rat
  fm_avg_delivery_time :: fval
  fm_late_orders :: "order list"
  fm_avg_delay :: fval
  fm_warehouse_performance :: "warehouse_row list"

definition fulfillment :: "warehouse_row sort_values \<Rightarrow> order list \<Rightarrow> py_error + fulfillment_metrics" where
  "fulfillment sort_values orders_df =
     (case on_time_rate orders_df of
        Inl e \<Rightarrow> Inl e
      | Inr rate \<Rightarrow>
          Inr \<lparr> fm_on_time_rate = rate,
                fm_avg_delivery_time = avg_delivery_time orders_df,
                fm_late_orders = late_orders orders_df,
                fm_avg_delay = avg_delay orders_df,
                fm_warehouse_performance = warehouse_performance sort_values orders_df \<rparr>)"

section \<open>Inventory (analysis script, section 3)\<close>

text \<open>
  \<^verbatim>\<open>inventory_df.groupby('Category').agg({'Current_Stock': 'sum',
  'Avg_Monthly_Demand': 'sum', 'Days_of_Inventory': 'mean'}).round(2)\<close>, then the added
  column \<^verbatim>\<open>Turnover_Ratio = (Avg_Monthly_Demand * 12 / Current_Stock).round(2)\<close>, a NumPy
  division of two columns: a zero denominator gives an infinity or NaN, not an exception.
\<close>

record inventory_summary_row =
  Summary_Category :: string
  Sum_Current_Stock :: rat
  Sum_Avg_Monthly_Demand :: rat
  Mean_Days_of_Inventory :: rat
  Turnover_Ratio :: fval

definition inventory_agg :: "string \<times> inventory_item list \<Rightarrow> inventory_summary_row" where
  "inventory_agg kg =
     (case kg of (k, g) \<Rightarrow>
        let stock = round2 (sum_list (map Current_Stock g));
            demand = round2 (sum_list (map Avg_Monthly_Demand g))
        in \<lparr> Summary_Category = k,
             Sum_Current_Stock = stock,
             Sum_Avg_Monthly_Demand = demand,
             Mean_Days_of_Inventory =
               round2 (sum_list (map Days_of_Inventory g) / of_nat (length g)),
             Turnover_Ratio = fround2 (fdiv (demand * 12) stock) \<rparr>)"

definition inventory_summary :: "inventory_item list \<Rightarrow> inventory_summary_row list" where
  "inventory_summary inventory_df = map inventory_agg (groupby Category inventory_df)"

section \<open>Supplier scoring (both scripts)\<close>

text \<open>The column assignment of the analysis script (lines 140--144).\<close>

definition Performance_Score :: "supplier \<Rightarrow> rat" where
  "Performance_Score s =
     round2 (On_Time_Delivery_Rate s * (4 / 10) + Quality_Score s * (4 / 10)
             - Defect_Rate_Percent s * 2)"

text \<open>The column assignment of the visualization script (lines 25--29).\<close>

definition Performance_Score_viz :: "supplier \<Rightarrow> rat" where
  "Performance_Score_viz s =
     round2 (On_Time_Delivery_Rate s * (4 / 10) + Quality_Score s * (4 / 10)
             - Defect_Rate_Percent s * 2)"

text \<open>
  \<^verbatim>\<open>df.nlargest(n, col)\<close> and \<^verbatim>\<open>df.nsmallest(n, col)\<close> with the default
  \<^verbatim>\<open>keep='first'\<close>, as the library documents them: the first \<open>n\<close> rows in descending
  (ascending) order of the column, where of rows with equal values the one that occurs
  first in the table is preferred.  (For \<open>n\<close> below the number of rows pandas negates
  the column for \<^verbatim>\<open>nlargest\<close> and sorts the candidates with a merge sort.)  A selected
  row carries its index.  The column projection that follows in the script does not change
  which rows are chosen and is left out.
\<close>

definition nlargest :: "nat \<Rightarrow> ('r \<Rightarrow> rat) \<Rightarrow> 'r list \<Rightarrow> (nat \<times> 'r) list" where
  "nlargest n col df = take n (sort_key (\<lambda>ir. - col (snd ir)) (enumerate 0 df))"

definition nsmallest :: "nat \<Rightarrow> ('r \<Rightarrow> rat) \<Rightarrow> 'r list \<Rightarrow> (nat \<times> 'r) list" where
  "nsmallest n col df = take n (sort_key (\<lambda>ir. col (snd ir)) (enumerate 0 df))"

definition top_suppliers :: "supplier list \<Rightarrow> (nat \<times> supplier) list" where
  "top_suppliers supplier_df = nlargest 5 Performance_Score supplier_df"


text \<open>\<^verbatim>\<open>top_suppliers.iloc[0]['Supplier']\<close> in the executive summary.\<close>

definition top_supplier_name :: "supplier list \<Rightarrow> py_error + string" where
  "top_supplier_name supplier_df =
     (case top_suppliers supplier_df of
        [] \<Rightarrow> Inl IndexError
      | ir # _ \<Rightarrow> Inr (Supplier (snd ir)))"

section \<open>Cost analysis (analysis script, section 5)\<close>

text \<open>
  \<^verbatim>\<open>orders_df.merge(shipping_df, on='Order_ID')\<close> is an inner join: one row for every pair
  of an order and a shipment with the same order identifier, in the order of the orders.
\<close>

definition merge :: "order list \<Rightarrow> shipment list \<Rightarrow> (order \<times> shipment) list" where
  "merge orders_df shipping_df =
     concat (map (\<lambda>r. map (Pair r) (filter (\<lambda>s. Ship_Order_ID s = Order_ID r) shipping_df))
               orders_df)"

definition total_order_value :: "order list \<Rightarrow> rat" where
  "total_order_value orders_df = sum_list (map Total_Value orders_df)"

definition total_shipping_cost :: "shipment list \<Rightarrow> rat" where
  "total_shipping_cost shipping_df = sum_list (map Shipping_Cost shipping_df)"

definition total_cost :: "order list \<Rightarrow> shipment list \<Rightarrow> rat" where
  "total_cost orders_df shipping_df =
     total_order_value orders_df + total_shipping_cost shipping_df"

definition shipping_pct_of_order_value :: "order list \<Rightarrow> shipment list \<Rightarrow> fval" where
  "shipping_pct_of_order_value orders_df shipping_df =
     fmul (fdiv (total_shipping_cost shipping_df) (total_order_value orders_df)) (Fin 100)"

text \<open>
  \<^verbatim>\<open>Series.quantile(q)\<close> with the default \<^verbatim>\<open>interpolation='linear'\<close>, as NumPy computes
  it: the virtual index \<open>(n - 1) * q\<close> in the sorted values, its floor and the next index
  (clipped to the last), and the interpolation between the two values there, taken from
  the right end when the weight is at least one half.  The quantile of no values is NaN.
\<close>

definition lerp :: "rat \<Rightarrow> rat \<Rightarrow> rat \<Rightarrow> rat" where
  "lerp a b t = (if 1 / 2 \<le> t then b - (b - a) * (1 - t) else a + (b - a) * t)"

definition quantile :: "rat \<Rightarrow> rat list \<Rightarrow> fval" where
  "quantile q xs =
     (if xs = [] then NaN
      else let arr = sort xs;
               n = length arr;
               virtual_index = of_nat (n - 1) * q;
               previous_index = nat \<lfloor>virtual_index\<rfloor>;
               next_index = min (previous_index + 1) (n - 1);
               gamma = virtual_index - of_nat previous_index
           in Fin (lerp (arr ! previous_index) (arr ! next_index) gamma))"

text \<open>
  The specification's wording of the same threshold, linear interpolation between order
  statistics: with the values sorted and \<open>h = (n - 1) * p\<close>, the value at position
  \<open>floor h\<close> plus the fraction \<open>h - floor h\<close> of the step to the value at position
  \<open>ceiling h\<close>.  It is compared with \<open>quantile\<close> below.
\<close>

definition linear_interpolation_percentile :: "rat \<Rightarrow> rat list \<Rightarrow> rat" where
  "linear_interpolation_percentile p xs =
     (let s = sort xs;
          h = of_nat (length xs - 1) * p
      in s ! nat \<lfloor>h\<rfloor> + (h - of_int \<lfloor>h\<rfloor>) * (s ! nat \<lceil>h\<rceil> - s ! nat \<lfloor>h\<rfloor>))"

text \<open>\<^verbatim>\<open>column > threshold\<close>: a comparison with NaN is false.\<close>

fun fgt :: "rat \<Rightarrow> fval \<Rightarrow> bool" where
  "fgt x (Fin t) = (t < x)"
| "fgt x NInf = True"
| "fgt x PInf = False"
| "fgt x NaN = False"

definition high_cost_threshold :: "shipment list \<Rightarrow> fval" where
  "high_cost_threshold shipping_df = quantile (9 / 10) (map Shipping_Cost shipping_df)"

definition high_cost_shipments :: "order list \<Rightarrow> shipment list \<Rightarrow> (order \<times> shipment) list" where
  "high_cost_shipments orders_df shipping_df =
     filter (\<lambda>os. fgt (Shipping_Cost (snd os)) (high_cost_threshold shipping_df))
       (merge orders_df shipping_df)"

definition potential_savings :: "order list \<Rightarrow> shipment list \<Rightarrow> rat" where
  "potential_savings orders_df shipping_df =
     sum_list (map (\<lambda>os. Shipping_Cost (snd os)) (high_cost_shipments orders_df shipping_df))
       * (15 / 100)"

section \<open>Monthly trends (analysis script, section 6)\<close>

text \<open>
  \<^verbatim>\<open>orders_df['Year_Month'] = orders_df['Order_Date'].dt.to_period('M')\<close>, the table
  \<^verbatim>\<open>groupby('Year_Month').agg({...}).round(2)\<close> with columns \<^verbatim>\<open>Orders\<close>, \<^verbatim>\<open>Revenue\<close>,
  \<^verbatim>\<open>On_Time_Rate_%\<close>, and the two growth columns \<^verbatim>\<open>col.pct_change() * 100\<close>.
  \<^verbatim>\<open>pct_change\<close> divides every entry by the one in the row before and subtracts 1; the
  first row has no row before it and gets NaN.
\<close>

definition Year_Month :: "order \<Rightarrow> int" where
  "Year_Month r = to_period_M (Order_Date r)"

record monthly_row =
  Period :: int
  Orders :: nat
  Revenue :: rat
  Month_On_Time_Rate :: rat

definition monthly_agg :: "int \<times> order list \<Rightarrow> monthly_row" where
  "monthly_agg kg =
     (case kg of (k, g) \<Rightarrow>
        \<lparr> Period = k,
          Orders = length g,
          Revenue = round2 (sum_list (map Total_Value g)),
          Month_On_Time_Rate =
            round2 (of_nat (length (filter is_on_time g)) / of_nat (length g) * 100) \<rparr>)"

definition monthly_trends :: "order list \<Rightarrow> monthly_row list" where
  "monthly_trends orders_df = map monthly_agg (groupby Year_Month orders_df)"

fun pct_change :: "rat list \<Rightarrow> fval list" where
  "pct_change [] = []"
| "pct_change (x # xs) = NaN # map (\<lambda>pc. fsub (fdiv (snd pc) (fst pc)) (Fin 1)) (zip (x # xs) xs)"

definition Order_Growth :: "order list \<Rightarrow> fval list" where
  "Order_Growth orders_df =
     map (\<lambda>v. fmul v (Fin 100)) (pct_change (map (\<lambda>m. of_nat (Orders m)) (monthly_trends orders_df)))"

definition Revenue_Growth :: "order list \<Rightarrow> fval list" where
  "Revenue_Growth orders_df =
     map (\<lambda>v. fmul v (Fin 100)) (pct_change (map Revenue (monthly_trends orders_df)))"

section \<open>Sample tables\<close>

text \<open>Small tables on which the theorems below are instantiated and evaluated.\<close>

definition ymd :: "int \<Rightarrow> int \<Rightarrow> int \<Rightarrow> date" where
  "ymd y m d = \<lparr> year = y, month = m, day = d \<rparr>"

definition order_row :: "string \<Rightarrow> date \<Rightarrow> date \<Rightarrow> date \<Rightarrow> string \<Rightarrow> string \<Rightarrow> rat \<Rightarrow> order" where
  "order_row i od ed ad flag wh v =
     \<lparr> Order_ID = i, Order_Date = od, Expected_Delivery = ed, Actual_Delivery = ad,
       On_Time_Delivery = flag, Warehouse = wh, Total_Value = v \<rparr>"


definition shipment_row :: "string \<Rightarrow> string \<Rightarrow> string \<Rightarrow> rat \<Rightarrow> rat \<Rightarrow> shipment" where
  "shipment_row i oid c cost km =
     \<lparr> Shipping_ID = i, Ship_Order_ID = oid, Carrier = c, Shipping_Cost = cost, Distance_KM = km \<rparr>"


text \<open>Three orders in two warehouses and two months; one of them late.\<close>

definition sample_orders :: "order list" where
  "sample_orders =
     [order_row ''O1'' (ymd 2025 1 10) (ymd 2025 1 15) (ymd 2025 1 14) ''Yes'' ''East'' 100,
      order_row ''O2'' (ymd 2025 1 20) (ymd 2025 1 25) (ymd 2025 1 28) ''No'' ''West'' (501 / 2),
      order_row ''O3'' (ymd 2025 3 5) (ymd 2025 3 10) (ymd 2025 3 9) ''Yes'' ''West'' 80]"


text \<open>Three shipments; the last one names an order that is not in \<open>sample_orders\<close>.\<close>

definition sample_shipments :: "shipment list" where
  "sample_shipments =
     [shipment_row ''S1'' ''O1'' ''FastShip'' 10 120,
      shipment_row ''S2'' ''O2'' ''FastShip'' 100 900,
      shipment_row ''S3'' ''O9'' ''RoadCo'' 50 400]"




text \<open>The specification's example: ten shipments costing 10, 20, ..., 100.\<close>

definition decile_shipments :: "shipment list" where
  "decile_shipments =
     map (\<lambda>c. shipment_row ''S'' ''O1'' ''FastShip'' c 100)
       [10, 20, 30, 40, 50, 60, 70, 80, 90, 100]"


section \<open>Theorems\<close>

subsection \<open>Counting and rounding\<close>

lemma filter_length_le_rat:
  "(of_nat (length (filter P xs)) :: rat) \<le> of_nat (length xs)"
  by simp



lemma round2_of_int [simp]: "round2 (of_int n) = of_int n"
  by (simp add: round2_def rint_def)

subsection \<open>Stable sorting of an indexed table\<close>

lemma insort_key_lex:
  fixes f :: "'a \<Rightarrow> 'k::linorder"
  assumes "sorted_wrt (\<lambda>a b. f a < f b \<or> (f a = f b \<and> Q a b)) ys"
    and "\<forall>y\<in>set ys. Q x y"
  shows "sorted_wrt (\<lambda>a b. f a < f b \<or> (f a = f b \<and> Q a b)) (insort_key f x ys)"
  using assms
proof (induction ys)
  case Nil
  then show ?case by simp
next
  case (Cons y ys)
  show ?case
  proof (cases "f x \<le> f y")
    case True
    have "\<forall>z\<in>set ys. f y \<le> f z" using Cons.prems(1) by auto
    then have "\<forall>z\<in>set (y # ys). f x < f z \<or> (f x = f z \<and> Q x z)"
      using True Cons.prems(2) by (auto simp: less_le)
    then show ?thesis using True Cons.prems(1) by simp
  next
    case False
    then have lt: "f y < f x" by simp
    have ih: "sorted_wrt (\<lambda>a b. f a < f b \<or> (f a = f b \<and> Q a b)) (insort_key f x ys)"
      using Cons by simp
    have "\<forall>z\<in>set (insort_key f x ys). f y < f z \<or> (f y = f z \<and> Q y z)"
      using lt Cons.prems(1) by (auto simp: set_insort_key)
    then show ?thesis using False ih by simp
  qed
qed

lemma sort_key_lex:
  fixes f :: "'a \<Rightarrow> 'k::linorder"
  assumes "sorted_wrt Q xs"
  shows "sorted_wrt (\<lambda>a b. f a < f b \<or> (f a = f b \<and> Q a b)) (sort_key f xs)"
  using assms
proof (induction xs)
  case Nil
  then show ?case by simp
next
  case (Cons x xs)
  have "\<forall>y\<in>set (sort_key f xs). Q x y" using Cons.prems by simp
  then show ?case using Cons by (simp add: insort_key_lex)
qed

lemma enumerate_sorted_fst: "sorted_wrt (\<lambda>a b. fst a < fst b) (enumerate n xs)"
proof (induction xs arbitrary: n)
  case Nil
  then show ?case by simp
next
  case (Cons x xs)
  have "\<forall>b\<in>set (enumerate (Suc n) xs). n < fst b"
    by (auto simp: in_set_enumerate_eq)
  then show ?case using Cons by simp
qed


lemma nsmallest_order:
  "sorted_wrt (\<lambda>a b. col (snd a) < col (snd b) \<or> (col (snd a) = col (snd b) \<and> fst a < fst b))
     (nsmallest n col df)"
  unfolding nsmallest_def
  by (rule sorted_wrt_take) (rule sort_key_lex, rule enumerate_sorted_fst)















subsection \<open>Sorting by a column, grouping, the warehouse table\<close>



lemma groupby_keys: "map fst (groupby key df) = sort (remdups (map key df))"
  by (simp add: groupby_def comp_def)

lemma groupby_group:
  assumes "kg \<in> set (groupby key df)"
  shows "snd kg = filter (\<lambda>r. key r = fst kg) df" and "snd kg \<noteq> []" and "fst kg \<in> key ` set df"
proof -
  from assms obtain k where k: "k \<in> set (map key df)" and kg: "kg = (k, filter (\<lambda>r. key r = k) df)"
    by (auto simp: groupby_def)
  show "snd kg = filter (\<lambda>r. key r = fst kg) df" using kg by simp
  show "fst kg \<in> key ` set df" using k kg by simp
  from k obtain r where "r \<in> set df" "key r = k" by auto
  then show "snd kg \<noteq> []" using kg by (auto simp: filter_empty_conv)
qed









subsection \<open>The inventory table\<close>



lemma inventory_summary_row:
  assumes "row \<in> set (inventory_summary inventory_df)"
  shows "Sum_Current_Stock row =
           round2 (sum_list (map Current_Stock
                     (filter (\<lambda>i. Category i = Summary_Category row) inventory_df)))"
    and "Sum_Avg_Monthly_Demand row =
           round2 (sum_list (map Avg_Monthly_Demand
                     (filter (\<lambda>i. Category i = Summary_Category row) inventory_df)))"
    and "Turnover_Ratio row = fround2 (fdiv (Sum_Avg_Monthly_Demand row * 12) (Sum_Current_Stock row))"
proof -
  from assms obtain kg where kg: "kg \<in> set (groupby Category inventory_df)"
    and row: "row = inventory_agg kg"
    by (auto simp: inventory_summary_def)
  obtain k g where kgeq: "kg = (k, g)" by (cases kg)
  have g: "g = filter (\<lambda>i. Category i = k) inventory_df"
    using groupby_group(1) [OF kg] kgeq by simp
  have name: "Summary_Category row = k" using row kgeq by (simp add: inventory_agg_def Let_def)
  show "Sum_Current_Stock row =
           round2 (sum_list (map Current_Stock
                     (filter (\<lambda>i. Category i = Summary_Category row) inventory_df)))"
    unfolding name using row kgeq g by (simp add: inventory_agg_def Let_def)
  show "Sum_Avg_Monthly_Demand row =
           round2 (sum_list (map Avg_Monthly_Demand
                     (filter (\<lambda>i. Category i = Summary_Category row) inventory_df)))"
    unfolding name using row kgeq g by (simp add: inventory_agg_def Let_def)
  show "Turnover_Ratio row = fround2 (fdiv (Sum_Avg_Monthly_Demand row * 12) (Sum_Current_Stock row))"
    using row kgeq by (simp add: inventory_agg_def Let_def)
qed

subsection \<open>The join and the quantile\<close>

lemma lerp_linear: "lerp a b t = a + (b - a) * t"
  by (simp add: lerp_def algebra_simps)

lemma quantile_linear:
  assumes q0: "0 \<le> q" and q1: "q \<le> 1" and ne: "xs \<noteq> []"
  shows "quantile q xs = Fin (linear_interpolation_percentile q xs)"
proof -
  define m where "m = length xs - 1"
  define h where "h = (of_nat m :: rat) * q"
  define s where "s = sort xs"
  define lo where "lo = nat \<lfloor>h\<rfloor>"
  have h0: "0 \<le> h" using q0 by (simp add: h_def)
  have h1: "h \<le> of_nat m" using q1 by (simp add: h_def mult_left_le)
  have f0: "0 \<le> \<lfloor>h\<rfloor>" using h0 by simp
  have lo_rat: "(of_nat lo :: rat) = of_int \<lfloor>h\<rfloor>" using f0 by (simp add: lo_def)
  have step: "(s ! min (lo + 1) m - s ! lo) * (h - of_int \<lfloor>h\<rfloor>)
                = (h - of_int \<lfloor>h\<rfloor>) * (s ! nat \<lceil>h\<rceil> - s ! lo)"
  proof (cases "h = of_int \<lfloor>h\<rfloor>")
    case True
    then have "h - of_int \<lfloor>h\<rfloor> = 0" by simp
    then show ?thesis by simp
  next
    case False
    then have lt: "of_int \<lfloor>h\<rfloor> < h" by (metis of_int_floor_le order_less_le)
    then have "\<lfloor>h\<rfloor> < \<lceil>h\<rceil>" by (simp add: less_ceiling_iff)
    moreover have "h \<le> of_int (\<lfloor>h\<rfloor> + 1)" by linarith
    then have "\<lceil>h\<rceil> \<le> \<lfloor>h\<rfloor> + 1" by (simp only: ceiling_le_iff)
    ultimately have c: "\<lceil>h\<rceil> = \<lfloor>h\<rfloor> + 1" by linarith
    have "h \<le> of_int (int m)" using h1 by simp
    then have "\<lceil>h\<rceil> \<le> int m" by (simp only: ceiling_le_iff)
    then have "lo + 1 \<le> m" using c f0 unfolding lo_def by linarith
    then have mn: "min (lo + 1) m = lo + 1" by simp
    have "nat \<lceil>h\<rceil> = lo + 1" using c f0 unfolding lo_def by (simp add: nat_add_distrib)
    then show ?thesis using mn by (simp add: mult.commute)
  qed
  have "quantile q xs = Fin (lerp (s ! lo) (s ! min (lo + 1) m) (h - of_nat lo))"
    using ne by (simp add: quantile_def Let_def m_def h_def s_def lo_def)
  also have "\<dots> = Fin (s ! lo + (s ! min (lo + 1) m - s ! lo) * (h - of_int \<lfloor>h\<rfloor>))"
    by (simp only: lerp_linear lo_rat)
  also have "\<dots> = Fin (s ! lo + (h - of_int \<lfloor>h\<rfloor>) * (s ! nat \<lceil>h\<rceil> - s ! lo))"
    by (simp only: step)
  also have "\<dots> = Fin (linear_interpolation_percentile q xs)"
    by (simp add: linear_interpolation_percentile_def Let_def m_def h_def s_def lo_def)
  finally show ?thesis .
qed

lemma in_set_merge:
  "((r, s) \<in> set (merge orders_df shipping_df))
     = (r \<in> set orders_df \<and> s \<in> set shipping_df \<and> Ship_Order_ID s = Order_ID r)"
  by (auto simp: merge_def)

subsection \<open>Unmatched shipments\<close>

lemma merge_unmatched:
  assumes "\<forall>r\<in>set orders_df. Order_ID r \<noteq> Ship_Order_ID s"
  shows "(r, s) \<notin> set (merge orders_df shipping_df)"
  using assms by (auto simp: in_set_merge)

subsection \<open>The monthly table\<close>

lemma length_pct_change [simp]: "length (pct_change xs) = length xs"
  by (cases xs) simp_all

lemma pct_change_first: "xs \<noteq> [] \<Longrightarrow> pct_change xs ! 0 = NaN"
  by (cases xs) simp_all

lemma pct_change_later:
  assumes "0 < i" and "i < length xs"
  shows "pct_change xs ! i = fsub (fdiv (xs ! i) (xs ! (i - 1))) (Fin 1)"
proof (cases xs)
  case Nil
  then show ?thesis using assms by simp
next
  case (Cons x ys)
  obtain j where j: "i = Suc j" using assms(1) by (cases i) simp_all
  have jl: "j < length ys" using assms(2) Cons j by simp
  have "pct_change xs ! i
          = map (\<lambda>pc. fsub (fdiv (snd pc) (fst pc)) (Fin 1)) (zip (x # ys) ys) ! j"
    using Cons j by simp
  also have "\<dots> = fsub (fdiv (ys ! j) ((x # ys) ! j)) (Fin 1)"
    using jl by simp
  finally show ?thesis using Cons j by simp
qed

lemma growth_as_difference:
  "fsub (fdiv c p) (Fin 1) = fdiv (c - p) p"
  by (simp add: fdiv_def diff_divide_distrib)

lemma growth_finite:
  "p \<noteq> 0 \<Longrightarrow> fmul (fdiv (c - p) p) (Fin 100) = Fin ((c - p) / p * 100)"
  by (simp add: fdiv_def)

lemma monthly_trends_periods:
  "map Period (monthly_trends orders_df) = sort (remdups (map Year_Month orders_df))"
proof -
  have "map Period (monthly_trends orders_df) = map fst (groupby Year_Month orders_df)"
    by (simp add: monthly_trends_def monthly_agg_def comp_def split_def)
  then show ?thesis by (simp add: groupby_keys)
qed

lemma monthly_trends_row:
  assumes "m \<in> set (monthly_trends orders_df)"
  shows "Orders m = length (filter (\<lambda>r. Year_Month r = Period m) orders_df)"
    and "0 < Orders m"
    and "Revenue m = round2 (sum_list (map Total_Value (filter (\<lambda>r. Year_Month r = Period m) orders_df)))"
proof -
  from assms obtain kg where kg: "kg \<in> set (groupby Year_Month orders_df)"
    and m: "m = monthly_agg kg"
    by (auto simp: monthly_trends_def)
  obtain k g where kgeq: "kg = (k, g)" by (cases kg)
  have g: "g = filter (\<lambda>r. Year_Month r = k) orders_df" and ne: "g \<noteq> []"
    using groupby_group(1,2) [OF kg] kgeq by simp_all
  have name: "Period m = k" using m kgeq by (simp add: monthly_agg_def)
  show "Orders m = length (filter (\<lambda>r. Year_Month r = Period m) orders_df)"
    unfolding name using m kgeq g by (simp add: monthly_agg_def)
  show "0 < Orders m" using m kgeq ne by (simp add: monthly_agg_def)
  show "Revenue m = round2 (sum_list (map Total_Value (filter (\<lambda>r. Year_Month r = Period m) orders_df)))"
    unfolding name using m kgeq g by (simp add: monthly_agg_def)
qed

lemma strictly_sorted_no_value_between:
  fixes xs :: "'a::linorder list"
  assumes srt: "sorted xs" and i: "0 < i" "i < length xs" and v: "v \<in> set xs"
  shows "\<not> (xs ! (i - 1) < v \<and> v < xs ! i)"
proof
  assume btw: "xs ! (i - 1) < v \<and> v < xs ! i"
  from v obtain j where j: "j < length xs" "xs ! j = v" by (auto simp: in_set_conv_nth)
  have "\<not> j \<le> i - 1"
  proof
    assume "j \<le> i - 1"
    then have "xs ! j \<le> xs ! (i - 1)" using srt i by (intro sorted_nth_mono) simp_all
    then show False using btw j by auto
  qed
  moreover have "\<not> i \<le> j"
  proof
    assume "i \<le> j"
    then have "xs ! i \<le> xs ! j" using srt j by (intro sorted_nth_mono) simp_all
    then show False using btw j by auto
  qed
  ultimately show False by linarith
qed

lemma monthly_trends_consecutive:
  assumes i: "0 < i" "i < length (monthly_trends orders_df)"
  shows "Period (monthly_trends orders_df ! (i - 1)) < Period (monthly_trends orders_df ! i)"
    and "r \<in> set orders_df \<Longrightarrow>
           \<not> (Period (monthly_trends orders_df ! (i - 1)) < Year_Month r
              \<and> Year_Month r < Period (monthly_trends orders_df ! i))"
proof -
  let ?T = "monthly_trends orders_df"
  let ?P = "sort (remdups (map Year_Month orders_df))"
  have P: "map Period ?T = ?P" by (rule monthly_trends_periods)
  have len: "length ?P = length ?T" using P by (metis length_map)
  have nth: "Period (?T ! k) = ?P ! k" if "k < length ?T" for k
    using P that by (metis nth_map)
  have ss: "sorted_wrt (<) ?P" by (simp add: strict_sorted_iff)
  have "?P ! (i - 1) < ?P ! i"
    using ss i len by (intro sorted_wrt_nth_less) simp_all
  then show "Period (?T ! (i - 1)) < Period (?T ! i)"
    using nth i by simp
  assume "r \<in> set orders_df"
  then have "Year_Month r \<in> set ?P" by simp
  then have "\<not> (?P ! (i - 1) < Year_Month r \<and> Year_Month r < ?P ! i)"
    using i len by (intro strictly_sorted_no_value_between) simp_all
  then show "\<not> (Period (?T ! (i - 1)) < Year_Month r \<and> Year_Month r < Period (?T ! i))"
    using nth i by simp
qed

subsection \<open>Order fulfillment\<close>

text \<open>
  C1.  For every non-empty order table the on-time rate is computed, equals
  100 times the number of rows flagged \<open>Yes\<close> over the number of rows, and lies
  between 0 and 100.
\<close>

theorem on_time_rate_value:
  assumes "orders_df \<noteq> []"
  shows "on_time_rate orders_df =
           Inr (100 * of_nat (length (filter (\<lambda>x. On_Time_Delivery x = ''Yes'') orders_df))
                  / of_nat (length orders_df))
         \<and> 0 \<le> projr (on_time_rate orders_df)
         \<and> projr (on_time_rate orders_df) \<le> 100"
proof -
  let ?n = "of_nat (length orders_df) :: rat"
  let ?k = "of_nat (length (filter is_on_time orders_df)) :: rat"
  have npos: "0 < ?n" using assms by simp
  have kle: "?k \<le> ?n" by (rule filter_length_le_rat)
  have up: "?k / ?n * 100 \<le> 100"
    using npos kle by (simp add: divide_le_eq)
  have lo: "0 \<le> ?k / ?n * 100" by simp
  have flt: "filter (\<lambda>x. On_Time_Delivery x = ''Yes'') orders_df = filter is_on_time orders_df"
    by (rule filter_cong) (simp_all add: is_on_time_def)
  show ?thesis
    using assms up lo
    by (simp add: on_time_rate_def total_orders_def on_time_orders_def flt)
qed

theorem on_time_rate_value_witness:
  "sample_orders \<noteq> []
   \<and> on_time_rate sample_orders = Inr (200 / 3)
   \<and> (0::rat) \<le> 200 / 3 \<and> (200 / 3 :: rat) \<le> 100"
proof -
  have ne: "sample_orders \<noteq> []" by (simp add: sample_orders_def)
  have len: "length sample_orders = 3" by (simp add: sample_orders_def)
  have yes: "length (filter (\<lambda>x. On_Time_Delivery x = ''Yes'') sample_orders) = 2"
    by (simp add: sample_orders_def order_row_def)
  from on_time_rate_value [OF ne]
  have "on_time_rate sample_orders = Inr (200 / 3)"
    by (simp add: len yes)
  with ne show ?thesis by simp
qed

text \<open>
  C3 (as the code has it).  With no order rows the fulfillment section stops at the
  division \<^verbatim>\<open>on_time_orders / total_orders\<close> with Python's ZeroDivisionError: nothing
  checks for the empty table beforehand, and nothing else in the section raises, so the
  error occurs exactly when the table is empty.
\<close>

theorem fulfillment_error_iff_empty:
  "(fulfillment sort_values orders_df = Inl ZeroDivisionError) = (orders_df = [])
   \<and> (on_time_rate orders_df = Inl ZeroDivisionError) = (orders_df = [])
   \<and> fulfillment sort_values orders_df \<noteq> Inl IndexError"
  by (auto simp: fulfillment_def on_time_rate_def total_orders_def split: sum.splits)

text \<open>
  C3 as stated fails: on the empty table the section is not rejected by a check of its
  own, it fails in the unguarded division.
\<close>

theorem fulfillment_empty_unguarded:
  "on_time_rate [] = Inl ZeroDivisionError
   \<and> fulfillment stable_descending [] = Inl ZeroDivisionError"
  by (simp add: fulfillment_def on_time_rate_def total_orders_def)




subsection \<open>Supplier scoring and selection\<close>

text \<open>
  C10.  The analysis script and the visualization script compute the same
  \<^verbatim>\<open>Performance_Score\<close> column from the same supplier table.
\<close>

theorem Performance_Score_scripts_agree:
  "map Performance_Score_viz supplier_df = map Performance_Score supplier_df
   \<and> Performance_Score_viz s
       = round2 (4 / 10 * On_Time_Delivery_Rate s + 4 / 10 * Quality_Score s
                 - 2 * Defect_Rate_Percent s)"
proof -
  have "Performance_Score_viz = Performance_Score"
    by (rule ext) (simp add: Performance_Score_viz_def Performance_Score_def)
  moreover have "Performance_Score_viz s
       = round2 (4 / 10 * On_Time_Delivery_Rate s + 4 / 10 * Quality_Score s
                 - 2 * Defect_Rate_Percent s)"
    by (simp add: Performance_Score_viz_def mult.commute)
  ultimately show ?thesis by simp
qed







subsection \<open>Inventory turnover\<close>




subsection \<open>Cost analysis\<close>

text \<open>
  C7.  A pair of an order and a shipment is among the high-cost shipments exactly when
  both are rows of their tables, they carry the same order identifier (the pair is a row
  of the inner join), and the shipment's cost is strictly greater than the threshold;
  each such row of the join is kept as often as it occurs there.  The threshold is the
  90th percentile of the costs of all shipments by linear interpolation between order
  statistics (with no shipments it is NaN and nothing is selected).  The savings figure
  is the sum of the selected rows' costs times 0.15.
\<close>

theorem high_cost_shipments_exact:
  "((r, s) \<in> set (high_cost_shipments orders_df shipping_df))
     = (r \<in> set orders_df \<and> s \<in> set shipping_df \<and> Ship_Order_ID s = Order_ID r
        \<and> fgt (Shipping_Cost s) (high_cost_threshold shipping_df))
   \<and> mset (high_cost_shipments orders_df shipping_df)
       = filter_mset (\<lambda>os. fgt (Shipping_Cost (snd os)) (high_cost_threshold shipping_df))
           (mset (merge orders_df shipping_df))
   \<and> (shipping_df \<noteq> [] \<longrightarrow>
        high_cost_threshold shipping_df
          = Fin (linear_interpolation_percentile (9 / 10) (map Shipping_Cost shipping_df))
        \<and> fgt (Shipping_Cost s) (high_cost_threshold shipping_df)
          = (linear_interpolation_percentile (9 / 10) (map Shipping_Cost shipping_df)
               < Shipping_Cost s))
   \<and> (shipping_df = [] \<longrightarrow> high_cost_shipments orders_df shipping_df = [])
   \<and> potential_savings orders_df shipping_df
       = sum_list (map (\<lambda>os. Shipping_Cost (snd os)) (high_cost_shipments orders_df shipping_df))
           * (15 / 100)"
proof -
  have mem: "((r, s) \<in> set (high_cost_shipments orders_df shipping_df))
     = (r \<in> set orders_df \<and> s \<in> set shipping_df \<and> Ship_Order_ID s = Order_ID r
        \<and> fgt (Shipping_Cost s) (high_cost_threshold shipping_df))"
    by (auto simp: high_cost_shipments_def in_set_merge)
  have ms: "mset (high_cost_shipments orders_df shipping_df)
       = filter_mset (\<lambda>os. fgt (Shipping_Cost (snd os)) (high_cost_threshold shipping_df))
           (mset (merge orders_df shipping_df))"
    by (simp add: high_cost_shipments_def)
  have thr: "high_cost_threshold shipping_df
          = Fin (linear_interpolation_percentile (9 / 10) (map Shipping_Cost shipping_df))"
    if "shipping_df \<noteq> []"
    unfolding high_cost_threshold_def using that by (intro quantile_linear) simp_all
  have cmp: "fgt (Shipping_Cost s) (high_cost_threshold shipping_df)
          = (linear_interpolation_percentile (9 / 10) (map Shipping_Cost shipping_df)
               < Shipping_Cost s)"
    if "shipping_df \<noteq> []"
    using thr [OF that] by simp
  have emp: "high_cost_shipments orders_df shipping_df = []" if "shipping_df = []"
    using that by (simp add: high_cost_shipments_def merge_def)
  have sav: "potential_savings orders_df shipping_df
       = sum_list (map (\<lambda>os. Shipping_Cost (snd os)) (high_cost_shipments orders_df shipping_df))
           * (15 / 100)"
    by (simp add: potential_savings_def)
  show ?thesis using mem ms thr cmp emp sav by blast
qed

theorem high_cost_shipments_exact_witness:
  "sample_shipments \<noteq> []
   \<and> high_cost_threshold sample_shipments = Fin 90
   \<and> linear_interpolation_percentile (9 / 10) (map Shipping_Cost sample_shipments) = 90
   \<and> map (\<lambda>os. (Order_ID (fst os), Shipping_ID (snd os), Shipping_Cost (snd os)))
        (high_cost_shipments sample_orders sample_shipments) = [(''O2'', ''S2'', 100)]
   \<and> potential_savings sample_orders sample_shipments = 15
   \<and> high_cost_threshold decile_shipments = Fin 91
   \<and> length (filter (\<lambda>s. fgt (Shipping_Cost s) (high_cost_threshold decile_shipments))
               decile_shipments) = 1
   \<and> high_cost_shipments sample_orders [] = []"
proof -
  have ne: "sample_shipments \<noteq> []" by (simp add: sample_shipments_def)
  have p: "linear_interpolation_percentile (9 / 10) (map Shipping_Cost sample_shipments) = 90"
    by code_simp
  note inst = high_cost_shipments_exact [of _ _ sample_orders sample_shipments]
  have t: "high_cost_threshold sample_shipments = Fin 90"
    using inst [THEN conjunct2, THEN conjunct2, THEN conjunct1] ne p by simp
  have h: "map (\<lambda>os. (Order_ID (fst os), Shipping_ID (snd os), Shipping_Cost (snd os)))
        (high_cost_shipments sample_orders sample_shipments) = [(''O2'', ''S2'', 100)]"
    by code_simp
  have s: "potential_savings sample_orders sample_shipments = 15"
    by code_simp
  have d: "high_cost_threshold decile_shipments = Fin 91" by code_simp
  have c: "length (filter (\<lambda>s. fgt (Shipping_Cost s) (high_cost_threshold decile_shipments))
               decile_shipments) = 1"
    by code_simp
  have e: "high_cost_shipments sample_orders [] = []"
    using high_cost_shipments_exact [of _ _ sample_orders "[]", THEN conjunct2, THEN conjunct2,
       THEN conjunct2, THEN conjunct1]
    by simp
  show ?thesis by (intro conjI ne t p h s d c e)
qed

text \<open>
  C9.  The three cost totals are computed from the whole order table and the whole
  shipment table, not from their join: the total order value sums every order, the total
  shipping cost sums every shipment, and the percentage is their quotient times 100.  A
  shipment whose order identifier matches no order is in no row of the join (and so in no
  high-cost row), and its cost is still part of the total shipping cost.
\<close>

theorem totals_over_unjoined_tables:
  "total_order_value orders_df = sum_list (map Total_Value orders_df)
   \<and> total_shipping_cost shipping_df = sum_list (map Shipping_Cost shipping_df)
   \<and> shipping_pct_of_order_value orders_df shipping_df
       = fmul (fdiv (sum_list (map Shipping_Cost shipping_df))
                    (sum_list (map Total_Value orders_df))) (Fin 100)
   \<and> (s \<in> set shipping_df \<longrightarrow> (\<forall>r\<in>set orders_df. Order_ID r \<noteq> Ship_Order_ID s) \<longrightarrow>
        (\<forall>r. (r, s) \<notin> set (merge orders_df shipping_df))
        \<and> (\<forall>r. (r, s) \<notin> set (high_cost_shipments orders_df shipping_df))
        \<and> total_shipping_cost shipping_df
            = Shipping_Cost s + total_shipping_cost (remove1 s shipping_df))"
proof -
  have a: "total_order_value orders_df = sum_list (map Total_Value orders_df)"
    by (simp add: total_order_value_def)
  have b: "total_shipping_cost shipping_df = sum_list (map Shipping_Cost shipping_df)"
    by (simp add: total_shipping_cost_def)
  have c: "shipping_pct_of_order_value orders_df shipping_df
       = fmul (fdiv (sum_list (map Shipping_Cost shipping_df))
                    (sum_list (map Total_Value orders_df))) (Fin 100)"
    by (simp add: shipping_pct_of_order_value_def total_order_value_def total_shipping_cost_def)
  have d: "(\<forall>r. (r, s) \<notin> set (merge orders_df shipping_df))
        \<and> (\<forall>r. (r, s) \<notin> set (high_cost_shipments orders_df shipping_df))
        \<and> total_shipping_cost shipping_df
            = Shipping_Cost s + total_shipping_cost (remove1 s shipping_df)"
    if mem: "s \<in> set shipping_df" and un: "\<forall>r\<in>set orders_df. Order_ID r \<noteq> Ship_Order_ID s"
  proof -
    have j: "(r, s) \<notin> set (merge orders_df shipping_df)" for r
      using un by (rule merge_unmatched)
    have h: "(r, s) \<notin> set (high_cost_shipments orders_df shipping_df)" for r
      using j [of r] by (simp add: high_cost_shipments_def)
    have t: "total_shipping_cost shipping_df
            = Shipping_Cost s + total_shipping_cost (remove1 s shipping_df)"
      unfolding total_shipping_cost_def using mem by (rule sum_list_map_remove1)
    show ?thesis using j h t by blast
  qed
  show ?thesis using a b c d by blast
qed

theorem totals_over_unjoined_tables_witness:
  "shipment_row ''S3'' ''O9'' ''RoadCo'' 50 400 \<in> set sample_shipments
   \<and> map Order_ID sample_orders = [''O1'', ''O2'', ''O3'']
   \<and> map (\<lambda>os. Shipping_ID (snd os)) (merge sample_orders sample_shipments) = [''S1'', ''S2'']
   \<and> total_shipping_cost sample_shipments = 160
   \<and> total_shipping_cost (remove1 (shipment_row ''S3'' ''O9'' ''RoadCo'' 50 400) sample_shipments) = 110
   \<and> sum_list (map (\<lambda>os. Shipping_Cost (snd os)) (merge sample_orders sample_shipments)) = 110
   \<and> total_order_value sample_orders = 861 / 2
   \<and> shipping_pct_of_order_value sample_orders sample_shipments = Fin (32000 / 861)"
proof -
  let ?s = "shipment_row ''S3'' ''O9'' ''RoadCo'' 50 400"
  have mem: "?s \<in> set sample_shipments" by (simp add: sample_shipments_def)
  have ids: "map Order_ID sample_orders = [''O1'', ''O2'', ''O3'']"
    by (simp add: sample_orders_def order_row_def)
  have un: "\<forall>r\<in>set sample_orders. Order_ID r \<noteq> Ship_Order_ID ?s"
    by (simp add: sample_orders_def order_row_def shipment_row_def)
  note inst = totals_over_unjoined_tables [of sample_orders sample_shipments ?s]
  have rest: "total_shipping_cost (remove1 ?s sample_shipments) = 110" by code_simp
  have tot: "total_shipping_cost sample_shipments = 160"
    using inst mem un rest by (simp add: shipment_row_def)
  have j: "map (\<lambda>os. Shipping_ID (snd os)) (merge sample_orders sample_shipments) = [''S1'', ''S2'']"
    by code_simp
  have js: "sum_list (map (\<lambda>os. Shipping_Cost (snd os)) (merge sample_orders sample_shipments)) = 110"
    by code_simp
  have ov: "total_order_value sample_orders = 861 / 2" by code_simp
  have pct: "shipping_pct_of_order_value sample_orders sample_shipments = Fin (32000 / 861)"
    by code_simp
  show ?thesis by (intro conjI mem ids j tot rest js ov pct)
qed

subsection \<open>Monthly growth\<close>

text \<open>
  C8.  The two growth columns have one entry per month of the monthly table.  The entry
  of the first month is NaN (undefined).  The entry of every later month is
  (current - previous) / previous * 100, where current and previous are the table's
  values (order count, revenue) for that month and for the row just before it; that row
  is an earlier month and no order falls in a month between the two.  A month of the
  table has at least one order, so the order growth is always finite; the revenue growth
  is finite when the previous revenue is not zero.
\<close>

theorem monthly_growth_value:
  "length (Order_Growth orders_df) = length (monthly_trends orders_df)
   \<and> length (Revenue_Growth orders_df) = length (monthly_trends orders_df)
   \<and> (orders_df \<noteq> [] \<longrightarrow>
        monthly_trends orders_df \<noteq> []
        \<and> Order_Growth orders_df ! 0 = NaN \<and> Revenue_Growth orders_df ! 0 = NaN)
   \<and> (0 < i \<and> i < length (monthly_trends orders_df) \<longrightarrow>
        Period (monthly_trends orders_df ! (i - 1)) < Period (monthly_trends orders_df ! i)
        \<and> (\<forall>r\<in>set orders_df.
              \<not> (Period (monthly_trends orders_df ! (i - 1)) < Year_Month r
                 \<and> Year_Month r < Period (monthly_trends orders_df ! i)))
        \<and> 0 < Orders (monthly_trends orders_df ! (i - 1))
        \<and> Order_Growth orders_df ! i
            = Fin ((of_nat (Orders (monthly_trends orders_df ! i))
                    - of_nat (Orders (monthly_trends orders_df ! (i - 1))))
                   / of_nat (Orders (monthly_trends orders_df ! (i - 1))) * 100)
        \<and> Revenue_Growth orders_df ! i
            = fmul (fdiv (Revenue (monthly_trends orders_df ! i)
                          - Revenue (monthly_trends orders_df ! (i - 1)))
                         (Revenue (monthly_trends orders_df ! (i - 1)))) (Fin 100)
        \<and> (Revenue (monthly_trends orders_df ! (i - 1)) \<noteq> 0 \<longrightarrow>
             Revenue_Growth orders_df ! i
               = Fin ((Revenue (monthly_trends orders_df ! i)
                       - Revenue (monthly_trends orders_df ! (i - 1)))
                      / Revenue (monthly_trends orders_df ! (i - 1)) * 100)))"
proof -
  let ?T = "monthly_trends orders_df"
  have lo: "length (Order_Growth orders_df) = length ?T"
    by (simp add: Order_Growth_def)
  have lr: "length (Revenue_Growth orders_df) = length ?T"
    by (simp add: Revenue_Growth_def)
  have first: "?T \<noteq> [] \<and> Order_Growth orders_df ! 0 = NaN \<and> Revenue_Growth orders_df ! 0 = NaN"
    if ne: "orders_df \<noteq> []"
  proof -
    have "map Period ?T \<noteq> []"
      unfolding monthly_trends_periods using ne
      by (metis length_0_conv length_sort list.map_disc_iff remdups_eq_nil_iff)
    then have t: "?T \<noteq> []" by simp
    then have l: "0 < length ?T" by simp
    have "Order_Growth orders_df ! 0 = NaN"
      using t l by (simp add: Order_Growth_def pct_change_first)
    moreover have "Revenue_Growth orders_df ! 0 = NaN"
      using t l by (simp add: Revenue_Growth_def pct_change_first)
    ultimately show ?thesis using t by simp
  qed
  have later: "Period (?T ! (i - 1)) < Period (?T ! i)
        \<and> (\<forall>r\<in>set orders_df.
              \<not> (Period (?T ! (i - 1)) < Year_Month r \<and> Year_Month r < Period (?T ! i)))
        \<and> 0 < Orders (?T ! (i - 1))
        \<and> Order_Growth orders_df ! i
            = Fin ((of_nat (Orders (?T ! i)) - of_nat (Orders (?T ! (i - 1))))
                   / of_nat (Orders (?T ! (i - 1))) * 100)
        \<and> Revenue_Growth orders_df ! i
            = fmul (fdiv (Revenue (?T ! i) - Revenue (?T ! (i - 1)))
                         (Revenue (?T ! (i - 1)))) (Fin 100)
        \<and> (Revenue (?T ! (i - 1)) \<noteq> 0 \<longrightarrow>
             Revenue_Growth orders_df ! i
               = Fin ((Revenue (?T ! i) - Revenue (?T ! (i - 1)))
                      / Revenue (?T ! (i - 1)) * 100))"
    if i: "0 < i" "i < length ?T"
  proof -
    have p: "i - 1 < length ?T" using i by simp
    have prev_pos: "0 < Orders (?T ! (i - 1))"
      using p by (intro monthly_trends_row(2) [of _ orders_df]) simp
    then have pn: "(of_nat (Orders (?T ! (i - 1))) :: rat) \<noteq> 0" by simp
    have og: "Order_Growth orders_df ! i
            = fmul (fdiv (of_nat (Orders (?T ! i)) - of_nat (Orders (?T ! (i - 1))))
                         (of_nat (Orders (?T ! (i - 1))))) (Fin 100)"
      using i p by (simp add: Order_Growth_def pct_change_later growth_as_difference)
    have rg: "Revenue_Growth orders_df ! i
            = fmul (fdiv (Revenue (?T ! i) - Revenue (?T ! (i - 1)))
                         (Revenue (?T ! (i - 1)))) (Fin 100)"
      using i p by (simp add: Revenue_Growth_def pct_change_later growth_as_difference)
    have og': "Order_Growth orders_df ! i
            = Fin ((of_nat (Orders (?T ! i)) - of_nat (Orders (?T ! (i - 1))))
                   / of_nat (Orders (?T ! (i - 1))) * 100)"
      unfolding og using pn by (rule growth_finite)
    have rg': "Revenue_Growth orders_df ! i
               = Fin ((Revenue (?T ! i) - Revenue (?T ! (i - 1)))
                      / Revenue (?T ! (i - 1)) * 100)"
      if "Revenue (?T ! (i - 1)) \<noteq> 0"
      unfolding rg using that by (rule growth_finite)
    show ?thesis
      using monthly_trends_consecutive [OF i] prev_pos og' rg rg' by blast
  qed
  show ?thesis using lo lr first later by blast
qed

theorem monthly_growth_value_witness:
  "sample_orders \<noteq> []
   \<and> map Period (monthly_trends sample_orders) = [660, 662]
   \<and> map Orders (monthly_trends sample_orders) = [2, 1]
   \<and> map Revenue (monthly_trends sample_orders) = [701 / 2, 80]
   \<and> (0::nat) < 1 \<and> 1 < length (monthly_trends sample_orders)
   \<and> Order_Growth sample_orders ! 0 = NaN
   \<and> Revenue_Growth sample_orders ! 0 = NaN
   \<and> Order_Growth sample_orders ! 1 = Fin (- 50)
   \<and> Revenue_Growth sample_orders ! 1 = Fin (- (54100 / 701))"
proof -
  let ?T = "monthly_trends sample_orders"
  have ne: "sample_orders \<noteq> []" by (simp add: sample_orders_def)
  have per: "map Period ?T = [660, 662]" by code_simp
  have ord: "map Orders ?T = [2, 1]" by code_simp
  have rev: "map Revenue ?T = [701 / 2, 80]" by code_simp
  have len: "length ?T = 2" using per by (metis length_map length_Cons list.size(3) numeral_2_eq_2)
  have i0: "(0::nat) < 1" by simp
  have i1: "1 < length ?T" using len by simp
  have o0: "Orders (?T ! 0) = 2" and o1: "Orders (?T ! 1) = 1" by code_simp+
  have r0: "Revenue (?T ! 0) = 701 / 2" and r1: "Revenue (?T ! 1) = 80" by code_simp+
  note inst = monthly_growth_value [of sample_orders 1]
  have f: "Order_Growth sample_orders ! 0 = NaN \<and> Revenue_Growth sample_orders ! 0 = NaN"
    using inst ne by blast
  have l: "Order_Growth sample_orders ! 1
            = Fin ((of_nat (Orders (?T ! 1)) - of_nat (Orders (?T ! (1 - 1))))
                   / of_nat (Orders (?T ! (1 - 1))) * 100)
        \<and> (Revenue (?T ! (1 - 1)) \<noteq> 0 \<longrightarrow>
             Revenue_Growth sample_orders ! 1
               = Fin ((Revenue (?T ! 1) - Revenue (?T ! (1 - 1)))
                      / Revenue (?T ! (1 - 1)) * 100))"
    using inst i0 i1 by blast
  have og: "Order_Growth sample_orders ! 1 = Fin (- 50)"
    using l o0 o1 by simp
  have rg: "Revenue_Growth sample_orders ! 1 = Fin (- (54100 / 701))"
    using l r0 r1 by simp
  show ?thesis
    using f by (intro conjI ne per ord rev i0 i1 og rg) simp_all
qed

end
